theory Spec2Isabelle
  imports Complex_Main
begin

section \<open>The parking database\<close>

text \<open>
  The server keeps four SQLite tables (\<^verbatim>\<open>db.exec\<close>, lines 9 to 42): \<^verbatim>\<open>spaces\<close>,
  \<^verbatim>\<open>package_whitelist\<close>, \<^verbatim>\<open>vehicles\<close> and \<^verbatim>\<open>logs\<close>. A table is the list of its rows in
  rowid order, which is the order of insertion since every key is
  \<^verbatim>\<open>INTEGER PRIMARY KEY AUTOINCREMENT\<close>. Text columns are strings of bytes (UTF-8), so the
  plates of the seed are written byte by byte. A \<^verbatim>\<open>DATETIME\<close> column holds what
  \<^verbatim>\<open>toISOString()\<close> wrote and \<^verbatim>\<open>new Date(...)\<close> reads back: the milliseconds since the
  epoch, an integer. \<^verbatim>\<open>has_package\<close> holds 1 or 0 and is only ever tested for truth.
\<close>

record space =
  sp_id :: int
  sp_code :: string
  sp_status :: string
  sp_type :: string

record whitelist_row =
  wl_id :: int
  wl_plate_number :: string
  wl_created_at :: int
  wl_notes :: string

record vehicle =
  v_id :: int
  v_plate_number :: string
  v_has_package :: bool
  v_entry_time :: int
  v_exit_time :: "int option"
  v_space_id :: int

record log_row =
  l_id :: int
  l_plate_number :: string
  l_action :: string
  l_timestamp :: int
  l_amount :: int
  l_duration_half_days :: int

text \<open>
  The \<^verbatim>\<open>seq_*\<close> fields are SQLite's \<^verbatim>\<open>sqlite_sequence\<close> table: the largest rowid each
  table has ever handed out, so that a deleted key is not used again.
\<close>

record db =
  spaces :: "space list"
  package_whitelist :: "whitelist_row list"
  vehicles :: "vehicle list"
  logs :: "log_row list"
  seq_spaces :: int
  seq_whitelist :: int
  seq_vehicles :: int
  seq_logs :: int

definition empty_db :: db where
  "empty_db = \<lparr>spaces = [], package_whitelist = [], vehicles = [], logs = [],
     seq_spaces = 0, seq_whitelist = 0, seq_vehicles = 0, seq_logs = 0\<rparr>"

section \<open>What a handler answers\<close>

text \<open>
  An exception of the database driver: \<^verbatim>\<open>better-sqlite3\<close> raises a \<^verbatim>\<open>RangeError\<close> when a
  statement is run with fewer or more values than it has \<^verbatim>\<open>?\<close> placeholders, and an
  \<^verbatim>\<open>SqliteError\<close> when an insert breaks a \<^verbatim>\<open>UNIQUE\<close> constraint.
\<close>

datatype exn = TooFewParameters | TooManyParameters | UniqueViolation

text \<open>
  The answers of the routes: the JSON bodies of the successful entry and exit, the plain
  \<^verbatim>\<open>{success: true}\<close>, the three answers with an error text (status 400 for a full lot
  and for a plate already on the whitelist, 404 for a vehicle that is not in the lot), and
  the answer Express gives (status 500) when the handler raised and did not catch.
\<close>

datatype response =
    EntryOk (spaceId: int) (hasPackage: bool)
  | ExitOk (amount: int) (durationHalfDays: int) (exitHasPackage: bool)
      (entryTime: int) (exitTime: int)
  | Success
  | LotFull
  | AlreadyWhitelisted
  | NotParked
  | Threw exn

section \<open>The prepared statements\<close>

text \<open>
  Binding: the values given to \<^verbatim>\<open>run\<close> or \<^verbatim>\<open>get\<close> are matched against the statement's
  placeholders before anything is read or written.
\<close>

definition bind_parameters :: "nat \<Rightarrow> 'a list \<Rightarrow> exn + 'a list" where
  "bind_parameters placeholders args =
     (if length args < placeholders then Inl TooFewParameters
      else if placeholders < length args then Inl TooManyParameters
      else Inr args)"

text \<open>\<^verbatim>\<open>INSERT INTO spaces (code, type) VALUES (?, ?)\<close>; \<^verbatim>\<open>code\<close> is \<^verbatim>\<open>UNIQUE\<close>, the status
  takes its default.\<close>

definition insert_space :: "string \<Rightarrow> string \<Rightarrow> db \<Rightarrow> exn + db" where
  "insert_space code type d =
     (if list_ex (\<lambda>s. sp_code s = code) (spaces d) then Inl UniqueViolation
      else Inr (d\<lparr>spaces := spaces d @
                  [\<lparr>sp_id = seq_spaces d + 1, sp_code = code,
                    sp_status = ''available'', sp_type = type\<rparr>],
                seq_spaces := seq_spaces d + 1\<rparr>))"

text \<open>\<^verbatim>\<open>INSERT INTO package_whitelist (plate_number, notes) VALUES (?, ?)\<close>;
  \<^verbatim>\<open>plate_number\<close> is \<^verbatim>\<open>UNIQUE\<close>, \<^verbatim>\<open>created_at\<close> defaults to the clock.\<close>

definition insert_whitelist :: "int \<Rightarrow> string \<Rightarrow> string \<Rightarrow> db \<Rightarrow> exn + db" where
  "insert_whitelist clock plate notes d =
     (if list_ex (\<lambda>w. wl_plate_number w = plate) (package_whitelist d)
      then Inl UniqueViolation
      else Inr (d\<lparr>package_whitelist := package_whitelist d @
                  [\<lparr>wl_id = seq_whitelist d + 1, wl_plate_number = plate,
                    wl_created_at = clock, wl_notes = notes\<rparr>],
                seq_whitelist := seq_whitelist d + 1\<rparr>))"

text \<open>\<^verbatim>\<open>DELETE FROM package_whitelist WHERE plate_number = ?\<close>\<close>

definition delete_whitelist :: "string \<Rightarrow> db \<Rightarrow> db" where
  "delete_whitelist plate d =
     d\<lparr>package_whitelist := filter (\<lambda>w. wl_plate_number w \<noteq> plate) (package_whitelist d)\<rparr>"

text \<open>\<^verbatim>\<open>INSERT INTO vehicles (plate_number, has_package, entry_time, space_id)
  VALUES (?, ?, ?, ?)\<close>; \<^verbatim>\<open>plate_number\<close> is \<^verbatim>\<open>UNIQUE\<close> (line 26), and no row is ever
  deleted, so the constraint looks at every visit the table has recorded.\<close>

definition insert_vehicle :: "string \<Rightarrow> bool \<Rightarrow> int \<Rightarrow> int \<Rightarrow> db \<Rightarrow> exn + db" where
  "insert_vehicle plate has_pkg entry_time space_id d =
     (if list_ex (\<lambda>v. v_plate_number v = plate) (vehicles d) then Inl UniqueViolation
      else Inr (d\<lparr>vehicles := vehicles d @
                  [\<lparr>v_id = seq_vehicles d + 1, v_plate_number = plate,
                    v_has_package = has_pkg, v_entry_time = entry_time,
                    v_exit_time = None, v_space_id = space_id\<rparr>],
                seq_vehicles := seq_vehicles d + 1\<rparr>))"

text \<open>\<^verbatim>\<open>UPDATE spaces SET status = ? WHERE id = ?\<close>, also with the status written into
  the statement (\<^verbatim>\<open>'occupied'\<close>, \<^verbatim>\<open>'available'\<close>).\<close>

definition update_space_status :: "string \<Rightarrow> int \<Rightarrow> db \<Rightarrow> db" where
  "update_space_status status ident d =
     d\<lparr>spaces := map (\<lambda>s. if sp_id s = ident then s\<lparr>sp_status := status\<rparr> else s) (spaces d)\<rparr>"

text \<open>\<^verbatim>\<open>UPDATE vehicles SET exit_time = ? WHERE id = ?\<close>\<close>

definition update_vehicle_exit :: "int \<Rightarrow> int \<Rightarrow> db \<Rightarrow> db" where
  "update_vehicle_exit exit_time ident d =
     d\<lparr>vehicles :=
         map (\<lambda>v. if v_id v = ident then v\<lparr>v_exit_time := Some exit_time\<rparr> else v) (vehicles d)\<rparr>"

text \<open>\<^verbatim>\<open>INSERT INTO logs (plate_number, action, timestamp, amount, duration_half_days)
  VALUES (?, ?, ?, ?, ?)\<close>; the entry route leaves the last two columns to their default, 0.\<close>

definition insert_log :: "string \<Rightarrow> string \<Rightarrow> int \<Rightarrow> int \<Rightarrow> int \<Rightarrow> db \<Rightarrow> db" where
  "insert_log plate action timestamp amt half_days d =
     d\<lparr>logs := logs d @
         [\<lparr>l_id = seq_logs d + 1, l_plate_number = plate, l_action = action,
           l_timestamp = timestamp, l_amount = amt, l_duration_half_days = half_days\<rparr>],
       seq_logs := seq_logs d + 1\<rparr>"

text \<open>
  \<^verbatim>\<open>SELECT * FROM package_whitelist WHERE plate_number = ?\<close> and
  \<^verbatim>\<open>SELECT * FROM vehicles WHERE plate_number = ? AND exit_time IS NULL\<close>, each read with
  \<^verbatim>\<open>get\<close>: one placeholder, the first matching row or none. The argument is the list of
  values the caller hands to \<^verbatim>\<open>get\<close>.
\<close>

definition get_whitelist_entry :: "string list \<Rightarrow> db \<Rightarrow> exn + whitelist_row option" where
  "get_whitelist_entry args d =
     (case bind_parameters 1 args of
        Inl e \<Rightarrow> Inl e
      | Inr ps \<Rightarrow> Inr (find (\<lambda>w. wl_plate_number w = hd ps) (package_whitelist d)))"

definition get_active_vehicle :: "string list \<Rightarrow> db \<Rightarrow> exn + vehicle option" where
  "get_active_vehicle args d =
     (case bind_parameters 1 args of
        Inl e \<Rightarrow> Inl e
      | Inr ps \<Rightarrow>
          Inr (find (\<lambda>v. v_plate_number v = hd ps \<and> v_exit_time v = None) (vehicles d)))"

text \<open>
  \<^verbatim>\<open>SELECT id FROM spaces WHERE status = 'available' AND type = 'package' LIMIT 1\<close> and
  \<^verbatim>\<open>SELECT id FROM spaces WHERE status = 'available' LIMIT 1\<close>: no \<^verbatim>\<open>ORDER BY\<close>, so the
  row is the first that the scan of the table meets, in rowid order.
\<close>

definition first_available_package :: "space list \<Rightarrow> space option" where
  "first_available_package sps =
     find (\<lambda>s. sp_status s = ''available'' \<and> sp_type s = ''package'') sps"

definition first_available :: "space list \<Rightarrow> space option" where
  "first_available sps = find (\<lambda>s. sp_status s = ''available'') sps"

section \<open>The routes\<close>

text \<open>\<^verbatim>\<open>POST /api/whitelist\<close> (lines 127 to 135): the insert in a \<^verbatim>\<open>try\<close>, any exception
  answered with status 400.\<close>

definition post_whitelist :: "string \<Rightarrow> string \<Rightarrow> int \<Rightarrow> db \<Rightarrow> response \<times> db" where
  "post_whitelist plateNumber notes clock d =
     (case insert_whitelist clock plateNumber notes d of
        Inl e \<Rightarrow> (AlreadyWhitelisted, d)
      | Inr d' \<Rightarrow> (Success, d'))"

text \<open>\<^verbatim>\<open>DELETE /api/whitelist/:plate\<close> (lines 137 to 140).\<close>

definition delete_whitelist_route :: "string \<Rightarrow> db \<Rightarrow> response \<times> db" where
  "delete_whitelist_route plate d = (Success, delete_whitelist plate d)"

text \<open>\<^verbatim>\<open>POST /api/reserve\<close> (lines 147 to 151): the status of the request is written to
  the space, whatever the space's status is and whatever the new one is.\<close>

definition post_reserve :: "int \<Rightarrow> string \<Rightarrow> db \<Rightarrow> response \<times> db" where
  "post_reserve space_ident status d = (Success, update_space_status status space_ident d)"

text \<open>
  \<^verbatim>\<open>POST /api/entry\<close>, lines 170 to 180: the choice of the space, given \<^verbatim>\<open>hasPackage\<close>.
\<close>

definition find_available :: "bool \<Rightarrow> space list \<Rightarrow> space option" where
  "find_available has_pkg sps =
     (let space = (if has_pkg then first_available_package sps else None)
      in case space of None \<Rightarrow> first_available sps | Some s \<Rightarrow> Some s)"

text \<open>
  \<^verbatim>\<open>POST /api/entry\<close>, lines 170 to 195: what the handler does once \<^verbatim>\<open>hasPackage\<close> is
  known. The insert into \<^verbatim>\<open>vehicles\<close> comes first and is not in a \<^verbatim>\<open>try\<close>: when it
  raises, the space and the log are not touched.
\<close>

definition entry_body :: "bool \<Rightarrow> string \<Rightarrow> int \<Rightarrow> db \<Rightarrow> response \<times> db" where
  "entry_body has_pkg plateNumber clock d =
     (case find_available has_pkg (spaces d) of
        None \<Rightarrow> (LotFull, d)
      | Some space \<Rightarrow>
          (case insert_vehicle plateNumber has_pkg clock (sp_id space) d of
             Inl e \<Rightarrow> (Threw e, d)
           | Inr d1 \<Rightarrow>
               (EntryOk (sp_id space) has_pkg,
                insert_log plateNumber ''entry'' clock 0 0
                  (update_space_status ''occupied'' (sp_id space) d1))))"

text \<open>
  \<^verbatim>\<open>POST /api/entry\<close>, the whole handler. Lines 167 and 168 read
  \<^verbatim>\<open>db.prepare("SELECT * FROM package_whitelist WHERE plate_number = ?").get()\<close>: the
  statement has one placeholder and \<^verbatim>\<open>get\<close> is given no value (the plate is not passed,
  unlike line 138, which passes \<^verbatim>\<open>req.params.plate\<close>, and line 188, which passes
  \<^verbatim>\<open>plateNumber\<close>).
\<close>

definition post_entry :: "string \<Rightarrow> int \<Rightarrow> db \<Rightarrow> response \<times> db" where
  "post_entry plateNumber clock d =
     (case get_whitelist_entry [] d of
        Inl e \<Rightarrow> (Threw e, d)
      | Inr whitelistEntry \<Rightarrow> entry_body (whitelistEntry \<noteq> None) plateNumber clock d)"

text \<open>
  \<^verbatim>\<open>Math.ceil(durationMs / halfDayMs)\<close> on integers: the least integer that is not below
  the quotient (exact as long as the quotient of the two doubles is, which it is for the
  differences of two timestamps).
\<close>

definition ceil_div :: "int \<Rightarrow> int \<Rightarrow> int" where
  "ceil_div a b = - ((- a) div b)"

definition halfDayMs :: int where
  "halfDayMs = 1000 * 60 * 60 * 12"

text \<open>
  \<^verbatim>\<open>POST /api/exit\<close>, lines 206 to 232: what the handler does with the row it found.
\<close>

definition exit_body :: "vehicle \<Rightarrow> string \<Rightarrow> int \<Rightarrow> db \<Rightarrow> response \<times> db" where
  "exit_body vehicle plateNumber clock d =
     (let durationMs = clock - v_entry_time vehicle;
          halfDays = ceil_div durationMs halfDayMs;
          amt = (if \<not> v_has_package vehicle then halfDays * 20 else 0)
      in (ExitOk amt halfDays (v_has_package vehicle) (v_entry_time vehicle) clock,
          insert_log plateNumber ''exit'' clock amt halfDays
            (update_space_status ''available'' (v_space_id vehicle)
              (update_vehicle_exit clock (v_id vehicle) d))))"

text \<open>
  \<^verbatim>\<open>POST /api/exit\<close>, the whole handler. Line 200 reads
  \<^verbatim>\<open>db.prepare("SELECT * FROM vehicles WHERE plate_number = ? AND exit_time IS NULL").get()\<close>:
  again one placeholder and no value.
\<close>

definition post_exit :: "string \<Rightarrow> int \<Rightarrow> db \<Rightarrow> response \<times> db" where
  "post_exit plateNumber clock d =
     (case get_active_vehicle [] d of
        Inl e \<Rightarrow> (Threw e, d)
      | Inr None \<Rightarrow> (NotParked, d)
      | Inr (Some vehicle) \<Rightarrow> exit_body vehicle plateNumber clock d)"

section \<open>The seed\<close>

text \<open>
  Lines 45 to 97 fill an empty database: 50 spaces \<^verbatim>\<open>A-001\<close> to \<^verbatim>\<open>A-050\<close>, the first 15
  of type \<^verbatim>\<open>package\<close>; four plates on the whitelist; four vehicles in the lot; six
  historical log rows. \<^verbatim>\<open>i.toString().padStart(3, '0')\<close> is the decimal numeral of
  \<^verbatim>\<open>i\<close>, filled with zeros on the left to three characters.
\<close>

fun to_string :: "nat \<Rightarrow> string" where
  "to_string n =
     (if n < 10 then [''0123456789'' ! n]
      else to_string (n div 10) @ [''0123456789'' ! (n mod 10)])"

definition pad_start :: "nat \<Rightarrow> char \<Rightarrow> string \<Rightarrow> string" where
  "pad_start n c s = replicate (n - length s) c @ s"

text \<open>Sequencing of statements that may raise: the first exception ends the run.\<close>

definition and_then :: "exn + 'a \<Rightarrow> ('a \<Rightarrow> exn + 'b) \<Rightarrow> exn + 'b" where
  "and_then r f = (case r of Inl e \<Rightarrow> Inl e | Inr x \<Rightarrow> f x)"

fun for_each :: "('a \<Rightarrow> db \<Rightarrow> exn + db) \<Rightarrow> 'a list \<Rightarrow> db \<Rightarrow> exn + db" where
  "for_each f [] d = Inr d"
| "for_each f (x # xs) d = and_then (f x d) (for_each f xs)"

definition plate_yue_B88888 :: string where
  "plate_yue_B88888 = [CHR 0xE7, CHR 0xB2, CHR 0xA4] @ ''B88888''"

definition plate_jing_A00001 :: string where
  "plate_jing_A00001 = [CHR 0xE4, CHR 0xBA, CHR 0xAC] @ ''A00001''"

definition plate_hu_C66666 :: string where
  "plate_hu_C66666 = [CHR 0xE6, CHR 0xB2, CHR 0xAA] @ ''C66666''"

definition plate_zhe_A12345 :: string where
  "plate_zhe_A12345 = [CHR 0xE6, CHR 0xB5, CHR 0x99] @ ''A12345''"

definition plate_su_E99999 :: string where
  "plate_su_E99999 = [CHR 0xE8, CHR 0x8B, CHR 0x8F] @ ''E99999''"

definition plate_chuan_A77777 :: string where
  "plate_chuan_A77777 = [CHR 0xE5, CHR 0xB7, CHR 0x9D] @ ''A77777''"

definition plate_yue_B12345 :: string where
  "plate_yue_B12345 = [CHR 0xE7, CHR 0xB2, CHR 0xA4] @ ''B12345''"

definition plate_jing_A88888 :: string where
  "plate_jing_A88888 = [CHR 0xE4, CHR 0xBA, CHR 0xAC] @ ''A88888''"

definition plate_hu_A66666 :: string where
  "plate_hu_A66666 = [CHR 0xE6, CHR 0xB2, CHR 0xAA] @ ''A66666''"

definition whitelistPlates :: "(string \<times> string) list" where
  "whitelistPlates =
     [(plate_yue_B88888,
       ''VIP'' @ [CHR 0xE6, CHR 0xB8, CHR 0xB8, CHR 0xE5, CHR 0xAE, CHR 0xA2] @ '' - '' @
       [CHR 0xE5, CHR 0xBC, CHR 0xA0, CHR 0xE5, CHR 0x85, CHR 0x88, CHR 0xE7, CHR 0x94, CHR 0x9F]),
      (plate_jing_A00001,
       [CHR 0xE9, CHR 0x95, CHR 0xBF, CHR 0xE6, CHR 0x9C, CHR 0x9F, CHR 0xE5, CHR 0x90, CHR 0x88,
        CHR 0xE4, CHR 0xBD, CHR 0x9C, CHR 0xE6, CHR 0x97, CHR 0x85, CHR 0xE8, CHR 0xA1, CHR 0x8C,
        CHR 0xE7, CHR 0xA4, CHR 0xBE]),
      (plate_hu_C66666,
       [CHR 0xE6, CHR 0x99, CHR 0xAF, CHR 0xE5, CHR 0x8C, CHR 0xBA, CHR 0xE5, CHR 0x90, CHR 0x88,
        CHR 0xE4, CHR 0xBD, CHR 0x9C, CHR 0xE4, CHR 0xBC, CHR 0x99, CHR 0xE4, CHR 0xBC, CHR 0xB4]),
      (plate_zhe_A12345,
       [CHR 0xE5, CHR 0xAE, CHR 0xB6, CHR 0xE5, CHR 0xBA, CHR 0xAD, CHR 0xE5, CHR 0xA5, CHR 0x97,
        CHR 0xE9, CHR 0xA4, CHR 0x90] @ '' - '' @
       [CHR 0xE6, CHR 0x9D, CHR 0x8E, CHR 0xE5, CHR 0xA5, CHR 0xB3, CHR 0xE5, CHR 0xA3, CHR 0xAB])]"

text \<open>\<^verbatim>\<open>new Date('2026-02-27T22:33:18-08:00').getTime()\<close>\<close>

definition seed_now :: int where
  "seed_now = 1772260398000"

text \<open>\<^verbatim>\<open>activeVehicles\<close>: plate, \<^verbatim>\<open>hasPkg\<close>, \<^verbatim>\<open>spaceId\<close>, \<^verbatim>\<open>entryOffset\<close> in hours.\<close>

definition activeVehicles :: "(string \<times> bool \<times> int \<times> int) list" where
  "activeVehicles =
     [(plate_yue_B88888, True, 1, 2),
      (plate_jing_A00001, True, 2, 5),
      (plate_su_E99999, False, 16, 1),
      (plate_chuan_A77777, False, 17, 8)]"

text \<open>\<^verbatim>\<open>historicalLogs\<close>: plate, action, offset in hours, \<^verbatim>\<open>amount || 0\<close>,
  \<^verbatim>\<open>duration || 0\<close>.\<close>

definition historicalLogs :: "(string \<times> string \<times> int \<times> int \<times> int) list" where
  "historicalLogs =
     [(plate_yue_B12345, ''entry'', 24, 0, 0),
      (plate_yue_B12345, ''exit'', 12, 20, 1),
      (plate_jing_A88888, ''entry'', 48, 0, 0),
      (plate_jing_A88888, ''exit'', 36, 40, 2),
      (plate_hu_A66666, ''entry'', 10, 0, 0),
      (plate_hu_A66666, ''exit'', 2, 20, 1)]"

definition seed_space :: "nat \<Rightarrow> db \<Rightarrow> exn + db" where
  "seed_space i d =
     insert_space (''A-'' @ pad_start 3 (CHR ''0'') (to_string i))
       (if i \<le> 15 then ''package'' else ''normal'') d"

definition seed_vehicle :: "string \<times> bool \<times> int \<times> int \<Rightarrow> db \<Rightarrow> exn + db" where
  "seed_vehicle v d =
     (case v of (plate, hasPkg, space_ident, entryOffset) \<Rightarrow>
        (let entry_time = seed_now - entryOffset * 60 * 60 * 1000
         in and_then (insert_vehicle plate hasPkg entry_time space_ident d)
              (\<lambda>d1. Inr (insert_log plate ''entry'' entry_time 0 0
                           (update_space_status ''occupied'' space_ident d1)))))"

definition seed_log :: "string \<times> string \<times> int \<times> int \<times> int \<Rightarrow> db \<Rightarrow> exn + db" where
  "seed_log l d =
     (case l of (plate, action, offset, amt, duration) \<Rightarrow>
        Inr (insert_log plate action (seed_now - offset * 60 * 60 * 1000) amt duration d))"

text \<open>The seed runs when the server starts, at clock \<open>boot\<close>, and only on a database
  with no space.\<close>

definition seed :: "int \<Rightarrow> db \<Rightarrow> exn + db" where
  "seed boot d =
     (if length (spaces d) = 0
      then and_then (for_each seed_space [1..<51] d)
             (\<lambda>d1. and_then
                (for_each (\<lambda>w. insert_whitelist boot (fst w) (snd w)) whitelistPlates d1)
                (\<lambda>d2. and_then (for_each seed_vehicle activeVehicles d2)
                   (for_each seed_log historicalLogs)))
      else Inr d)"

text \<open>The database the server starts with when there was none.\<close>

definition init_db :: "int \<Rightarrow> db" where
  "init_db boot = (case seed boot empty_db of Inl e \<Rightarrow> empty_db | Inr d \<Rightarrow> d)"

section \<open>Runs of requests\<close>

text \<open>The five operations that write, each with the clock reading of the moment it is
  served where the handler reads the clock.\<close>

datatype request =
    Entry string int
  | Exit string int
  | WhitelistAdd string string int
  | WhitelistRemove string
  | Reserve int string

fun serve :: "request \<Rightarrow> db \<Rightarrow> response \<times> db" where
  "serve (Entry plateNumber clock) d = post_entry plateNumber clock d"
| "serve (Exit plateNumber clock) d = post_exit plateNumber clock d"
| "serve (WhitelistAdd plateNumber notes clock) d = post_whitelist plateNumber notes clock d"
| "serve (WhitelistRemove plate) d = delete_whitelist_route plate d"
| "serve (Reserve space_ident status) d = post_reserve space_ident status d"

fun run :: "request list \<Rightarrow> db \<Rightarrow> db" where
  "run [] d = d"
| "run (r # rs) d = run rs (snd (serve r d))"

text \<open>The two counts of the occupancy invariant.\<close>

definition occupied_count :: "db \<Rightarrow> nat" where
  "occupied_count d = length (filter (\<lambda>s. sp_status s = ''occupied'') (spaces d))"

definition active_count :: "db \<Rightarrow> nat" where
  "active_count d = length (filter (\<lambda>v. v_exit_time v = None) (vehicles d))"

section \<open>Notions the properties are stated with\<close>

text \<open>A reservation toggle that stays clear of occupancy: it does not write the status
  \<^verbatim>\<open>occupied\<close>, and the space it names is not occupied. Every other request passes.\<close>

fun spares_occupancy :: "request \<Rightarrow> db \<Rightarrow> bool" where
  "spares_occupancy (Reserve i status) d =
     (status \<noteq> ''occupied'' \<and>
      \<not> list_ex (\<lambda>s. sp_id s = i \<and> sp_status s = ''occupied'') (spaces d))"
| "spares_occupancy r d = True"

fun toggles_spare_occupancy :: "request list \<Rightarrow> db \<Rightarrow> bool" where
  "toggles_spare_occupancy [] d = True"
| "toggles_spare_occupancy (r # rs) d =
     (spares_occupancy r d \<and> toggles_spare_occupancy rs (snd (serve r d)))"

text \<open>The seeded lot after each of its 50 spaces has been set to \<^verbatim>\<open>occupied\<close> through
  \<^verbatim>\<open>POST /api/reserve\<close>.\<close>

definition full_db :: db where
  "full_db = run (map (\<lambda>i. Reserve (int i) ''occupied'') [1..<51]) (init_db seed_now)"

section \<open>The two lookups by plate\<close>

text \<open>
  Both handlers that take a plate start with a lookup that is given no value for its
  placeholder, so the driver raises before any row is read and before anything is
  written: whatever the plate, the clock and the database, the request ends in the
  uncaught exception, and the rest of the handler (\<open>entry_body\<close>, \<open>exit_body\<close>) is
  not reached.
\<close>

lemma post_entry_raises: "post_entry plateNumber clock d = (Threw TooFewParameters, d)"
  by (simp add: post_entry_def get_whitelist_entry_def bind_parameters_def)

lemma post_exit_raises: "post_exit plateNumber clock d = (Threw TooFewParameters, d)"
  by (simp add: post_exit_def get_active_vehicle_def bind_parameters_def)

section \<open>Facts about the statements\<close>

lemma find_in_set: "find P xs = Some x \<Longrightarrow> x \<in> set xs \<and> P x"
  by (induction xs) (auto split: if_splits)

lemma find_sorted_least:
  "sorted (map f xs) \<Longrightarrow> find P xs = Some x \<Longrightarrow> y \<in> set xs \<Longrightarrow> P y \<Longrightarrow> f x \<le> f y"
  by (induction xs) (auto split: if_splits)

lemma find_available_None_iff:
  "(find_available has_pkg sps = None) = (first_available sps = None)"
proof (cases "first_available_package sps")
  case None
  then show ?thesis by (simp add: find_available_def)
next
  case (Some s)
  then have "s \<in> set sps \<and> sp_status s = ''available''"
    using find_in_set [of _ sps s] by (auto simp: first_available_package_def)
  then have "first_available sps \<noteq> None"
    by (auto simp: first_available_def find_None_iff)
  with Some show ?thesis by (simp add: find_available_def)
qed

text \<open>With no space available the rest of the entry handler answers that the lot is full
  and writes nothing.\<close>

lemma entry_body_full_lot:
  "first_available (spaces d) = None \<Longrightarrow> entry_body has_pkg p c d = (LotFull, d)"
  using find_available_None_iff [of has_pkg "spaces d"] by (simp add: entry_body_def)

lemma insert_vehicle_known_plate:
  "list_ex (\<lambda>v. v_plate_number v = p) (vehicles d) \<Longrightarrow>
   insert_vehicle p has_pkg c i d = Inl UniqueViolation"
  by (simp add: insert_vehicle_def)

text \<open>\<open>ceil_div\<close> is the ceiling of the quotient.\<close>

lemma ceil_div_ceiling: "ceil_div a b = \<lceil>real_of_int a / real_of_int b\<rceil>"
  by (simp add: ceil_div_def ceiling_divide_eq_div)

text \<open>What the rest of the exit handler answers and logs for the row it is given: the
  half days are the ceiling of the duration over twelve hours, the amount is 20 a half
  day, or 0 for a row with the package flag; no bound from below on either.\<close>

lemma exit_body_answer:
  "fst (exit_body v p c d) =
     ExitOk (if v_has_package v then 0 else ceil_div (c - v_entry_time v) halfDayMs * 20)
       (ceil_div (c - v_entry_time v) halfDayMs) (v_has_package v) (v_entry_time v) c"
  by (simp add: exit_body_def Let_def)

lemma exit_body_fee:
  "fst (exit_body v p c d) =
     ExitOk (if v_has_package v then 0 else \<lceil>real_of_int (c - v_entry_time v) / 43200000\<rceil> * 20)
       \<lceil>real_of_int (c - v_entry_time v) / 43200000\<rceil> (v_has_package v) (v_entry_time v) c"
  by (simp add: exit_body_def Let_def ceil_div_ceiling halfDayMs_def)

lemma exit_body_log:
  "logs (snd (exit_body v p c d)) = logs d @
     [\<lparr>l_id = seq_logs d + 1, l_plate_number = p, l_action = ''exit'', l_timestamp = c,
       l_amount = (if v_has_package v then 0
                   else \<lceil>real_of_int (c - v_entry_time v) / 43200000\<rceil> * 20),
       l_duration_half_days = \<lceil>real_of_int (c - v_entry_time v) / 43200000\<rceil>\<rparr>]"
  by (simp add: exit_body_def Let_def ceil_div_ceiling halfDayMs_def insert_log_def
      update_space_status_def update_vehicle_exit_def)

section \<open>Frames: what each request leaves alone\<close>

lemma occupied_filter_update:
  assumes "status \<noteq> ''occupied''"
    and "\<not> list_ex (\<lambda>s. sp_id s = i \<and> sp_status s = ''occupied'') sps"
  shows "filter (\<lambda>s. sp_status s = ''occupied'')
           (map (\<lambda>s. if sp_id s = i then s\<lparr>sp_status := status\<rparr> else s) sps) =
         filter (\<lambda>s. sp_status s = ''occupied'') sps"
  using assms by (induction sps) (auto simp: list_ex_iff)

lemma serve_keeps_counts:
  assumes "spares_occupancy r d"
  shows "occupied_count (snd (serve r d)) = occupied_count d"
    and "active_count (snd (serve r d)) = active_count d"
proof -
  show "occupied_count (snd (serve r d)) = occupied_count d"
  proof (cases r)
    case (Reserve i status)
    with assms show ?thesis
      by (simp add: post_reserve_def update_space_status_def occupied_count_def
          occupied_filter_update)
  next
    case (WhitelistAdd p n c)
    then show ?thesis
      by (simp add: post_whitelist_def insert_whitelist_def occupied_count_def)
  qed (simp_all add: post_entry_raises post_exit_raises delete_whitelist_route_def
      delete_whitelist_def occupied_count_def)
  show "active_count (snd (serve r d)) = active_count d"
  proof (cases r)
    case (WhitelistAdd p n c)
    then show ?thesis
      by (simp add: post_whitelist_def insert_whitelist_def active_count_def)
  qed (simp_all add: post_entry_raises post_exit_raises delete_whitelist_route_def
      delete_whitelist_def post_reserve_def update_space_status_def active_count_def)
qed

lemma run_keeps_counts:
  "toggles_spare_occupancy rs d \<Longrightarrow>
   occupied_count (run rs d) = occupied_count d \<and> active_count (run rs d) = active_count d"
proof (induction rs arbitrary: d)
  case Nil
  then show ?case by simp
next
  case (Cons r rs)
  then show ?case by (simp add: serve_keeps_counts)
qed

lemma init_counts: "occupied_count (init_db boot) = 4 \<and> active_count (init_db boot) = 4"
  by code_simp

text \<open>The writes of an entry and of an exit move the two counts together: where the
  steps after the lookup admit a vehicle, one more space is occupied and one more record
  is active; where they close the active record of a vehicle whose space is occupied, one
  less of each. Keys are unique in both tables.\<close>

lemma occupy_one_more:
  assumes "distinct (map sp_id sps)" and "s \<in> set sps" and "sp_status s \<noteq> ''occupied''"
  shows "length (filter (\<lambda>x. sp_status x = ''occupied'')
           (map (\<lambda>x. if sp_id x = sp_id s then x\<lparr>sp_status := ''occupied''\<rparr> else x) sps)) =
         Suc (length (filter (\<lambda>x. sp_status x = ''occupied'') sps))"
  using assms
proof (induction sps)
  case Nil
  then show ?case by simp
next
  case (Cons a sps)
  show ?case
  proof (cases "sp_id a = sp_id s")
    case True
    with Cons.prems have "a = s" by (auto simp: image_iff)
    moreover from True Cons.prems
    have "map (\<lambda>x. if sp_id x = sp_id s then x\<lparr>sp_status := ''occupied''\<rparr> else x) sps = sps"
      by (auto simp: image_iff intro!: map_idI)
    ultimately show ?thesis using Cons.prems by simp
  next
    case False
    with Cons show ?thesis by auto
  qed
qed

lemma free_one_less:
  assumes "distinct (map sp_id sps)" and "s \<in> set sps" and "sp_status s = ''occupied''"
  shows "Suc (length (filter (\<lambda>x. sp_status x = ''occupied'')
           (map (\<lambda>x. if sp_id x = sp_id s then x\<lparr>sp_status := ''available''\<rparr> else x) sps))) =
         length (filter (\<lambda>x. sp_status x = ''occupied'') sps)"
  using assms
proof (induction sps)
  case Nil
  then show ?case by simp
next
  case (Cons a sps)
  show ?case
  proof (cases "sp_id a = sp_id s")
    case True
    with Cons.prems have "a = s" by (auto simp: image_iff)
    moreover from True Cons.prems
    have "map (\<lambda>x. if sp_id x = sp_id s then x\<lparr>sp_status := ''available''\<rparr> else x) sps = sps"
      by (auto simp: image_iff intro!: map_idI)
    ultimately show ?thesis using Cons.prems by simp
  next
    case False
    with Cons show ?thesis by auto
  qed
qed

lemma close_one_less:
  assumes "distinct (map v_id vs)" and "v \<in> set vs" and "v_exit_time v = None"
  shows "Suc (length (filter (\<lambda>x. v_exit_time x = None)
           (map (\<lambda>x. if v_id x = v_id v then x\<lparr>v_exit_time := Some c\<rparr> else x) vs))) =
         length (filter (\<lambda>x. v_exit_time x = None) vs)"
  using assms
proof (induction vs)
  case Nil
  then show ?case by simp
next
  case (Cons a vs)
  show ?case
  proof (cases "v_id a = v_id v")
    case True
    with Cons.prems have "a = v" by (auto simp: image_iff)
    moreover from True Cons.prems
    have "map (\<lambda>x. if v_id x = v_id v then x\<lparr>v_exit_time := Some c\<rparr> else x) vs = vs"
      by (auto simp: image_iff intro!: map_idI)
    ultimately show ?thesis using Cons.prems by simp
  next
    case False
    with Cons show ?thesis by auto
  qed
qed

lemma entry_body_counts:
  assumes "distinct (map sp_id (spaces d))"
    and "entry_body has_pkg p c d = (EntryOk i h, d')"
  shows "occupied_count d' = Suc (occupied_count d) \<and> active_count d' = Suc (active_count d)"
proof -
  from assms(2) obtain s where s: "find_available has_pkg (spaces d) = Some s"
    by (auto simp: entry_body_def split: option.splits)
  then have "s \<in> set (spaces d) \<and> sp_status s = ''available''"
    using find_in_set [of _ "spaces d" s]
    by (auto simp: find_available_def first_available_def first_available_package_def
        split: if_splits option.splits)
  then have free: "s \<in> set (spaces d)" "sp_status s \<noteq> ''occupied''" by simp_all
  from assms(2) s have d': "d' = insert_log p ''entry'' c 0 0
      (update_space_status ''occupied'' (sp_id s)
        (d\<lparr>vehicles := vehicles d @
              [\<lparr>v_id = seq_vehicles d + 1, v_plate_number = p, v_has_package = has_pkg,
                v_entry_time = c, v_exit_time = None, v_space_id = sp_id s\<rparr>],
            seq_vehicles := seq_vehicles d + 1\<rparr>))"
    by (auto simp: entry_body_def insert_vehicle_def split: if_splits)
  show ?thesis
    using occupy_one_more [OF assms(1) free]
    by (simp add: d' insert_log_def update_space_status_def occupied_count_def active_count_def)
qed

lemma exit_body_counts:
  assumes "distinct (map sp_id (spaces d))" and "distinct (map v_id (vehicles d))"
    and "v \<in> set (vehicles d)" and "v_exit_time v = None"
    and "s \<in> set (spaces d)" and "sp_id s = v_space_id v" and "sp_status s = ''occupied''"
  shows "Suc (occupied_count (snd (exit_body v p c d))) = occupied_count d \<and>
         Suc (active_count (snd (exit_body v p c d))) = active_count d"
  using free_one_less [OF assms(1) assms(5) assms(7)] close_one_less [OF assms(2,3,4), of c]
  by (simp add: exit_body_def Let_def insert_log_def update_space_status_def
      update_vehicle_exit_def occupied_count_def active_count_def assms(6))

text \<open>No request renumbers or reorders the spaces: in every state reached from the seed
  the table lists the identifiers 1 to 50 in ascending order.\<close>

lemma serve_keeps_space_ids: "map sp_id (spaces (snd (serve r d))) = map sp_id (spaces d)"
  by (cases r)
    (auto simp: post_entry_raises post_exit_raises post_whitelist_def insert_whitelist_def
      delete_whitelist_route_def delete_whitelist_def post_reserve_def update_space_status_def)

lemma run_keeps_space_ids: "map sp_id (spaces (run rs d)) = map sp_id (spaces d)"
  by (induction rs arbitrary: d) (simp_all add: serve_keeps_space_ids)

lemma init_space_ids: "map sp_id (spaces (init_db boot)) = map int [1..<51]"
  by code_simp

lemma reachable_space_ids_sorted: "sorted (map sp_id (spaces (run rs (init_db boot))))"
proof -
  have "sorted (map int [1..<51])" by code_simp
  then show ?thesis by (simp only: run_keeps_space_ids init_space_ids)
qed

text \<open>No request writes the table of vehicles.\<close>

lemma serve_keeps_vehicles: "vehicles (snd (serve r d)) = vehicles d"
  by (cases r)
    (auto simp: post_entry_raises post_exit_raises post_whitelist_def insert_whitelist_def
      delete_whitelist_route_def delete_whitelist_def post_reserve_def update_space_status_def)

lemma run_keeps_vehicles: "vehicles (run rs d) = vehicles d"
  by (induction rs arbitrary: d) (simp_all add: serve_keeps_vehicles)

lemma entry_body_admits:
  assumes "entry_body has_pkg p c d = (EntryOk i h, d')"
  shows "\<not> list_ex (\<lambda>v. v_plate_number v = p) (vehicles d) \<and>
         vehicles d' = vehicles d @
           [\<lparr>v_id = seq_vehicles d + 1, v_plate_number = p, v_has_package = has_pkg,
             v_entry_time = c, v_exit_time = None, v_space_id = i\<rparr>]"
  using assms
  by (auto simp: entry_body_def insert_vehicle_def insert_log_def update_space_status_def
      split: option.splits if_splits)

text \<open>The steps after the lookups write it as follows. An entry that is admitted appends
  one open row with the plate, the flag, the clock and the space, and the plate had no
  row before; a plate that has a row, open or closed, is refused by the \<^verbatim>\<open>UNIQUE\<close>
  constraint when a space is available. An exit sets the exit time of the rows with the
  key of the row it was given, and changes no other row and no other column.\<close>

lemma entry_body_known_plate:
  assumes "list_ex (\<lambda>v. v_plate_number v = p) (vehicles d)"
    and "first_available (spaces d) \<noteq> None"
  shows "entry_body has_pkg p c d = (Threw UniqueViolation, d)"
  using assms find_available_None_iff [of has_pkg "spaces d"]
  by (auto simp: entry_body_def insert_vehicle_known_plate split: option.splits)

lemma exit_body_closes:
  "vehicles (snd (exit_body v p c d)) =
     map (\<lambda>x. if v_id x = v_id v then x\<lparr>v_exit_time := Some c\<rparr> else x) (vehicles d)"
  by (simp add: exit_body_def Let_def insert_log_def update_space_status_def
      update_vehicle_exit_def)

text \<open>The steps of an exit use the flag the entry stored: after the steps of an entry
  have admitted a plate with a flag, and after any run of requests, the lookup of the
  active row, handed the plate, finds the row of that entry, and the steps of the exit
  bill by its flag and its entry time.\<close>

lemma find_last_only:
  "\<not> list_ex P xs \<Longrightarrow> P y \<Longrightarrow> find P (xs @ [y]) = Some y"
  by (induction xs) auto

lemma exit_steps_use_stored_flag:
  assumes "entry_body has_pkg p c0 d0 = (EntryOk i h, d1)"
  shows "\<exists>v. get_active_vehicle [p] (run rs d1) = Inr (Some v) \<and>
             v_has_package v = has_pkg \<and> v_entry_time v = c0 \<and>
             fst (exit_body v p c (run rs d1)) =
               ExitOk (if has_pkg then 0 else ceil_div (c - c0) halfDayMs * 20)
                 (ceil_div (c - c0) halfDayMs) has_pkg c0 c"
proof -
  let ?new = "\<lparr>v_id = seq_vehicles d0 + 1, v_plate_number = p, v_has_package = has_pkg,
             v_entry_time = c0, v_exit_time = None, v_space_id = i\<rparr>"
  from entry_body_admits [OF assms]
  have fresh: "\<not> list_ex (\<lambda>v. v_plate_number v = p) (vehicles d0)"
    and rows: "vehicles d1 = vehicles d0 @ [?new]"
    by simp_all
  from fresh have "\<not> list_ex (\<lambda>v. v_plate_number v = p \<and> v_exit_time v = None) (vehicles d0)"
    by (auto simp: list_ex_iff)
  then have "find (\<lambda>v. v_plate_number v = p \<and> v_exit_time v = None) (vehicles d0 @ [?new]) =
      Some ?new"
    by (rule find_last_only) simp
  with rows have "get_active_vehicle [p] (run rs d1) = Inr (Some ?new)"
    by (simp add: get_active_vehicle_def bind_parameters_def run_keeps_vehicles)
  then show ?thesis by (simp add: exit_body_answer)
qed

section \<open>The claims\<close>

subsection \<open>C1: the package flag of an entry\<close>

text \<open>
  Claim C1: for every Entry(plate), the \<^verbatim>\<open>hasPackage\<close> flag computed in step 1 is true
  if and only if a whitelist row for that exact plate exists at entry time.

  The handler does not do this. In the seeded database the plate of the third whitelist
  row is on the whitelist and not in the lot, and spaces are free; the request for it
  ends in the exception of the lookup, which was given no plate: no flag is computed,
  returned or stored, and the database is as before.
\<close>

theorem entry_of_whitelisted_plate_raises:
  "list_ex (\<lambda>w. wl_plate_number w = plate_hu_C66666) (package_whitelist (init_db seed_now)) \<and>
   post_entry plate_hu_C66666 seed_now (init_db seed_now) =
     (Threw TooFewParameters, init_db seed_now)"
proof -
  have "list_ex (\<lambda>w. wl_plate_number w = plate_hu_C66666)
          (package_whitelist (init_db seed_now))"
    by code_simp
  then show ?thesis by (simp add: post_entry_raises)
qed

subsection \<open>C2: a plate that comes back\<close>

text \<open>
  Claim C2: for every plate whose previous visits have all ended, a new Entry succeeds
  whenever an available space exists (Absent, Parked, Absent, repeatedly), and the
  historical records are retained.

  The handler does not admit such a plate. The seeded database has no row of the plate
  below, so that no visit of it is open, and space 3 is available; the request ends in
  the exception of the whitelist lookup and the database is as before. The steps after
  the lookup would admit the plate to space 3. (No request writes the table of vehicles,
  \<open>run_keeps_vehicles\<close>, so the records are retained.)
\<close>

theorem entry_of_absent_plate_raises:
  "filter (\<lambda>v. v_plate_number v = ''B12345'') (vehicles (init_db seed_now)) = [] \<and>
   first_available (spaces (init_db seed_now)) =
     Some \<lparr>sp_id = 3, sp_code = ''A-003'', sp_status = ''available'', sp_type = ''package''\<rparr> \<and>
   post_entry ''B12345'' seed_now (init_db seed_now) =
     (Threw TooFewParameters, init_db seed_now) \<and>
   fst (entry_body False ''B12345'' seed_now (init_db seed_now)) = EntryOk 3 False"
proof -
  have a: "filter (\<lambda>v. v_plate_number v = ''B12345'') (vehicles (init_db seed_now)) = []"
    by code_simp
  have b: "first_available (spaces (init_db seed_now)) =
     Some \<lparr>sp_id = 3, sp_code = ''A-003'', sp_status = ''available'', sp_type = ''package''\<rparr>"
    by code_simp
  have c: "fst (entry_body False ''B12345'' seed_now (init_db seed_now)) = EntryOk 3 False"
    by code_simp
  from a b c show ?thesis by (simp add: post_entry_raises)
qed

subsection \<open>C3: the reservation toggle on an occupied space\<close>

text \<open>
  Claim C3: a reservation toggle on a space whose status is occupied fails with
  InvalidTransition and leaves the status unchanged.

  Against it: space 1 of the seeded lot is occupied; the toggle to \<^verbatim>\<open>reserved\<close> succeeds
  and the space is reserved afterwards.
\<close>

theorem reserve_overwrites_occupied:
  "map sp_status (filter (\<lambda>s. sp_id s = 1) (spaces (init_db seed_now))) = [''occupied''] \<and>
   fst (post_reserve 1 ''reserved'' (init_db seed_now)) = Success \<and>
   map sp_status (filter (\<lambda>s. sp_id s = 1)
     (spaces (snd (post_reserve 1 ''reserved'' (init_db seed_now))))) = [''reserved'']"
  by code_simp

text \<open>
  Claim C3, as the code has it: the toggle always succeeds. Afterwards the space with the
  given identifier has the requested status, whatever its status was, occupied included;
  every other space keeps its status; identifiers, codes and types of the spaces, the
  whitelist, the vehicles and the log are unchanged.
\<close>

theorem reserve_sets_any_status:
  assumes "post_reserve i status d = (r, d')"
  shows "r = Success \<and>
         map sp_status (spaces d') =
           map (\<lambda>s. if sp_id s = i then status else sp_status s) (spaces d) \<and>
         map sp_id (spaces d') = map sp_id (spaces d) \<and>
         map sp_code (spaces d') = map sp_code (spaces d) \<and>
         map sp_type (spaces d') = map sp_type (spaces d) \<and>
         package_whitelist d' = package_whitelist d \<and>
         vehicles d' = vehicles d \<and> logs d' = logs d"
  using assms by (auto simp: post_reserve_def update_space_status_def)

theorem reserve_sets_any_status_witness:
  "post_reserve 1 ''available'' (init_db seed_now) =
     (Success, update_space_status ''available'' 1 (init_db seed_now)) \<and>
   take 3 (map sp_status (spaces (update_space_status ''available'' 1 (init_db seed_now)))) =
     [''available'', ''occupied'', ''available'']"
proof -
  have a: "post_reserve 1 ''available'' (init_db seed_now) =
     (Success, update_space_status ''available'' 1 (init_db seed_now))"
    by (simp add: post_reserve_def)
  have b: "take 3 (map (\<lambda>s. if sp_id s = 1 then ''available'' else sp_status s)
             (spaces (init_db seed_now))) = [''available'', ''occupied'', ''available'']"
    by code_simp
  from reserve_sets_any_status [OF a] a b show ?thesis by simp
qed

subsection \<open>C4: occupied spaces and active records\<close>

text \<open>
  Claim C4: in every state reachable from the seeded state by the five operations, the
  number of occupied spaces equals the number of records whose exit time is unset.

  Against it: one toggle of the occupied space 1 to \<^verbatim>\<open>available\<close> leaves three occupied
  spaces and four active records.
\<close>

theorem reserve_breaks_occupancy_count:
  "occupied_count (run [Reserve 1 ''available''] (init_db seed_now)) = 3 \<and>
   active_count (run [Reserve 1 ''available''] (init_db seed_now)) = 4"
  by code_simp

text \<open>
  Claim C4, as the code has it: the two counts are equal in every state reached from the
  seeded state by entries, exits, whitelist additions and removals, and those reservation
  toggles that neither name a space whose status is occupied nor write the status
  occupied.
\<close>

theorem occupancy_count_when_toggles_spare_occupied:
  assumes "toggles_spare_occupancy rs (init_db boot)"
  shows "occupied_count (run rs (init_db boot)) = active_count (run rs (init_db boot))"
  using run_keeps_counts [OF assms] init_counts [of boot] by simp

theorem occupancy_count_when_toggles_spare_occupied_witness:
  "toggles_spare_occupancy
     [Reserve 3 ''reserved'', Entry ''B12345'' seed_now, WhitelistAdd ''B12345'' ''guest'' seed_now,
      Reserve 3 ''available'', Exit plate_su_E99999 seed_now, WhitelistRemove plate_hu_C66666]
     (init_db seed_now) \<and>
   occupied_count (run
     [Reserve 3 ''reserved'', Entry ''B12345'' seed_now, WhitelistAdd ''B12345'' ''guest'' seed_now,
      Reserve 3 ''available'', Exit plate_su_E99999 seed_now, WhitelistRemove plate_hu_C66666]
     (init_db seed_now)) = 4 \<and>
   active_count (run
     [Reserve 3 ''reserved'', Entry ''B12345'' seed_now, WhitelistAdd ''B12345'' ''guest'' seed_now,
      Reserve 3 ''available'', Exit plate_su_E99999 seed_now, WhitelistRemove plate_hu_C66666]
     (init_db seed_now)) = 4"
proof -
  let ?rs = "[Reserve 3 ''reserved'', Entry ''B12345'' seed_now,
      WhitelistAdd ''B12345'' ''guest'' seed_now,
      Reserve 3 ''available'', Exit plate_su_E99999 seed_now, WhitelistRemove plate_hu_C66666]"
  have a: "toggles_spare_occupancy ?rs (init_db seed_now)" by code_simp
  have b: "active_count (run ?rs (init_db seed_now)) = 4" by code_simp
  from occupancy_count_when_toggles_spare_occupied [OF a] a b show ?thesis by simp
qed

subsection \<open>C5: the fee of an exit\<close>

text \<open>
  Claim C5: for every Exit of a parked vehicle with entry time T and exit time T + d,
  d positive, the half days are the ceiling of d over twelve hours, and the amount
  returned and logged is 20 a half day without the package flag and 0 with it; 13 hours
  without the flag give 2 half days and the amount 40.

  The handler does not do this. The seeded vehicle in space 16 has no package flag and an
  active row; its exit 13 hours after its entry ends in the exception of the lookup, which
  was given no plate: no amount is returned, no row is closed and nothing is logged. The
  steps after the lookup, given that row, would answer 2 half days and 40
  (\<open>exit_body_fee\<close> and \<open>exit_body_log\<close> state what they answer and log in general).
\<close>

theorem exit_after_13_hours_raises:
  "find (\<lambda>v. v_plate_number v = plate_su_E99999 \<and> v_exit_time v = None)
     (vehicles (init_db seed_now)) =
     Some \<lparr>v_id = 3, v_plate_number = plate_su_E99999, v_has_package = False,
           v_entry_time = seed_now - 3600000, v_exit_time = None, v_space_id = 16\<rparr> \<and>
   post_exit plate_su_E99999 (seed_now - 3600000 + 13 * 3600000) (init_db seed_now) =
     (Threw TooFewParameters, init_db seed_now) \<and>
   fst (exit_body \<lparr>v_id = 3, v_plate_number = plate_su_E99999, v_has_package = False,
           v_entry_time = seed_now - 3600000, v_exit_time = None, v_space_id = 16\<rparr>
         plate_su_E99999 (seed_now - 3600000 + 13 * 3600000) (init_db seed_now)) =
     ExitOk 40 2 False (seed_now - 3600000) (seed_now - 3600000 + 13 * 3600000)"
proof -
  have "find (\<lambda>v. v_plate_number v = plate_su_E99999 \<and> v_exit_time v = None)
     (vehicles (init_db seed_now)) =
     Some \<lparr>v_id = 3, v_plate_number = plate_su_E99999, v_has_package = False,
           v_entry_time = seed_now - 3600000, v_exit_time = None, v_space_id = 16\<rparr>"
    by code_simp
  then show ?thesis
    by (simp add: post_exit_raises exit_body_fee)
qed

subsection \<open>C6: entry into a full lot\<close>

text \<open>
  Claim C6: an Entry in a state with no available space fails with LotFullError and
  mutates nothing; in particular with all 50 seeded spaces occupied.

  The handler mutates nothing, but it does not answer that the lot is full: with the 50
  seeded spaces occupied the request ends in the exception of the whitelist lookup, before
  any space is looked for. The steps after the lookup would give the answer of the claim
  (\<open>entry_body_full_lot\<close>).
\<close>

theorem entry_into_full_lot_raises:
  "occupied_count full_db = 50 \<and> first_available (spaces full_db) = None \<and>
   post_entry ''B12345'' seed_now full_db = (Threw TooFewParameters, full_db) \<and>
   entry_body False ''B12345'' seed_now full_db = (LotFull, full_db)"
proof -
  have a: "occupied_count full_db = 50" by code_simp
  have b: "first_available (spaces full_db) = None" by code_simp
  from a b show ?thesis by (simp add: post_entry_raises entry_body_full_lot)
qed

subsection \<open>C7: exit of a plate that is not parked\<close>

text \<open>
  Claim C7: an Exit for a plate with no active record fails with NotParkedError, mutates
  nothing and appends nothing to the log.

  The handler mutates nothing and logs nothing, but it does not answer that the vehicle
  is not parked: for a plate the seeded database has no row of, the request ends in the
  exception of the lookup, which never gets to report that it found no row.
\<close>

theorem exit_of_absent_plate_raises:
  "find (\<lambda>v. v_plate_number v = ''B12345'' \<and> v_exit_time v = None)
     (vehicles (init_db seed_now)) = None \<and>
   post_exit ''B12345'' seed_now (init_db seed_now) = (Threw TooFewParameters, init_db seed_now)"
proof -
  have "find (\<lambda>v. v_plate_number v = ''B12345'' \<and> v_exit_time v = None)
     (vehicles (init_db seed_now)) = None"
    by code_simp
  then show ?thesis by (simp add: post_exit_raises)
qed

subsection \<open>C8: the choice of the space\<close>

text \<open>
  Claim C8: with the preference for a package space, the choice is first among the spaces
  that are available and of type package; when there is none, or without the preference,
  it falls back to any available space and takes the one with the lowest identifier.

  Proved for \<open>find_available\<close> on a table listed by ascending identifier, which is how
  the table is scanned (\<open>reachable_space_ids_sorted\<close>): with the preference and an
  available package space, the result is an available package space, the one with the
  lowest identifier among them; otherwise, if any space is available, the result is the
  available space with the lowest identifier; and there is no result exactly when no
  space is available. The result is a function of the preference and the table.
\<close>

theorem find_available_policy:
  assumes "sorted (map sp_id sps)"
  shows "(has_pkg \<and> list_ex (\<lambda>s. sp_status s = ''available'' \<and> sp_type s = ''package'') sps \<longrightarrow>
           (\<exists>s. find_available has_pkg sps = Some s \<and> s \<in> set sps \<and>
                sp_status s = ''available'' \<and> sp_type s = ''package'' \<and>
                (\<forall>t \<in> set sps. sp_status t = ''available'' \<and> sp_type t = ''package'' \<longrightarrow>
                   sp_id s \<le> sp_id t))) \<and>
         (\<not> (has_pkg \<and> list_ex (\<lambda>s. sp_status s = ''available'' \<and> sp_type s = ''package'') sps) \<and>
          list_ex (\<lambda>s. sp_status s = ''available'') sps \<longrightarrow>
           (\<exists>s. find_available has_pkg sps = Some s \<and> s \<in> set sps \<and>
                sp_status s = ''available'' \<and>
                (\<forall>t \<in> set sps. sp_status t = ''available'' \<longrightarrow> sp_id s \<le> sp_id t))) \<and>
         (\<not> list_ex (\<lambda>s. sp_status s = ''available'') sps \<longrightarrow>
           find_available has_pkg sps = None)"
proof (intro conjI impI)
  assume pref: "has_pkg \<and> list_ex (\<lambda>s. sp_status s = ''available'' \<and> sp_type s = ''package'') sps"
  then obtain s where s: "first_available_package sps = Some s"
    by (cases "first_available_package sps")
      (auto simp: first_available_package_def find_None_iff list_ex_iff)
  with pref have "find_available has_pkg sps = Some s"
    by (simp add: find_available_def)
  moreover from s have "s \<in> set sps \<and> sp_status s = ''available'' \<and> sp_type s = ''package''"
    using find_in_set [of _ sps s] by (auto simp: first_available_package_def)
  moreover from s assms
  have "\<forall>t \<in> set sps. sp_status t = ''available'' \<and> sp_type t = ''package'' \<longrightarrow> sp_id s \<le> sp_id t"
    unfolding first_available_package_def by (blast intro: find_sorted_least)
  ultimately show "\<exists>s. find_available has_pkg sps = Some s \<and> s \<in> set sps \<and>
      sp_status s = ''available'' \<and> sp_type s = ''package'' \<and>
      (\<forall>t \<in> set sps. sp_status t = ''available'' \<and> sp_type t = ''package'' \<longrightarrow> sp_id s \<le> sp_id t)"
    by blast
next
  assume fb: "\<not> (has_pkg \<and> list_ex (\<lambda>s. sp_status s = ''available'' \<and> sp_type s = ''package'') sps) \<and>
    list_ex (\<lambda>s. sp_status s = ''available'') sps"
  then obtain s where s: "first_available sps = Some s"
    by (cases "first_available sps") (auto simp: first_available_def find_None_iff list_ex_iff)
  from fb have "\<not> has_pkg \<or> first_available_package sps = None"
    by (auto simp: first_available_package_def find_None_iff list_ex_iff)
  with s have "find_available has_pkg sps = Some s"
    by (auto simp: find_available_def)
  moreover from s have "s \<in> set sps \<and> sp_status s = ''available''"
    using find_in_set [of _ sps s] by (auto simp: first_available_def)
  moreover from s assms
  have "\<forall>t \<in> set sps. sp_status t = ''available'' \<longrightarrow> sp_id s \<le> sp_id t"
    unfolding first_available_def by (blast intro: find_sorted_least)
  ultimately show "\<exists>s. find_available has_pkg sps = Some s \<and> s \<in> set sps \<and>
      sp_status s = ''available'' \<and>
      (\<forall>t \<in> set sps. sp_status t = ''available'' \<longrightarrow> sp_id s \<le> sp_id t)"
    by blast
next
  assume "\<not> list_ex (\<lambda>s. sp_status s = ''available'') sps"
  then have "first_available sps = None"
    by (auto simp: first_available_def find_None_iff list_ex_iff)
  then show "find_available has_pkg sps = None"
    by (simp add: find_available_None_iff)
qed

theorem find_available_policy_witness:
  "sorted (map sp_id (spaces (init_db seed_now))) \<and>
   list_ex (\<lambda>s. sp_status s = ''available'' \<and> sp_type s = ''package'') (spaces (init_db seed_now)) \<and>
   (\<exists>s. find_available True (spaces (init_db seed_now)) = Some s \<and>
        s \<in> set (spaces (init_db seed_now)) \<and>
        sp_status s = ''available'' \<and> sp_type s = ''package'' \<and>
        (\<forall>t \<in> set (spaces (init_db seed_now)).
           sp_status t = ''available'' \<and> sp_type t = ''package'' \<longrightarrow> sp_id s \<le> sp_id t)) \<and>
   find_available True (spaces (init_db seed_now)) =
     Some \<lparr>sp_id = 3, sp_code = ''A-003'', sp_status = ''available'', sp_type = ''package''\<rparr>"
proof -
  have a: "sorted (map sp_id (spaces (init_db seed_now)))" by code_simp
  have b: "list_ex (\<lambda>s. sp_status s = ''available'' \<and> sp_type s = ''package'')
             (spaces (init_db seed_now))" by code_simp
  have c: "find_available True (spaces (init_db seed_now)) =
     Some \<lparr>sp_id = 3, sp_code = ''A-003'', sp_status = ''available'', sp_type = ''package''\<rparr>"
    by code_simp
  from find_available_policy [OF a, of True] a b c show ?thesis by blast
qed

subsection \<open>C9: the exit and the whitelist\<close>


subsection \<open>C10: an exit before the entry\<close>

text \<open>
  Claim C10: Exit does not guard against negative durations: for a parked vehicle whose
  entry time is later than the clock at exit, the half days are zero or negative, and
  without the package flag the amount returned and logged is 20 times the half days, not
  floored at zero.

  The handler returns and logs no amount. With the clock 13 hours before the entry of the
  seeded vehicle in space 16, the exit ends in the exception of the lookup, as every exit
  does. The steps after the lookup have no guard indeed: given that row they would answer
  minus 1 half day and the amount minus 20.
\<close>

theorem exit_before_entry_raises:
  "find (\<lambda>v. v_plate_number v = plate_su_E99999 \<and> v_exit_time v = None)
     (vehicles (init_db seed_now)) =
     Some \<lparr>v_id = 3, v_plate_number = plate_su_E99999, v_has_package = False,
           v_entry_time = seed_now - 3600000, v_exit_time = None, v_space_id = 16\<rparr> \<and>
   post_exit plate_su_E99999 (seed_now - 3600000 - 13 * 3600000) (init_db seed_now) =
     (Threw TooFewParameters, init_db seed_now) \<and>
   fst (exit_body \<lparr>v_id = 3, v_plate_number = plate_su_E99999, v_has_package = False,
           v_entry_time = seed_now - 3600000, v_exit_time = None, v_space_id = 16\<rparr>
         plate_su_E99999 (seed_now - 3600000 - 13 * 3600000) (init_db seed_now)) =
     ExitOk (- 20) (- 1) False (seed_now - 3600000) (seed_now - 3600000 - 13 * 3600000)"
proof -
  have "find (\<lambda>v. v_plate_number v = plate_su_E99999 \<and> v_exit_time v = None)
     (vehicles (init_db seed_now)) =
     Some \<lparr>v_id = 3, v_plate_number = plate_su_E99999, v_has_package = False,
           v_entry_time = seed_now - 3600000, v_exit_time = None, v_space_id = 16\<rparr>"
    by code_simp
  then show ?thesis
    by (simp add: post_exit_raises exit_body_def Let_def ceil_div_def halfDayMs_def)
qed

end
